theory Spec2Isabelle
  imports Main
begin

unbundle bit_operations_syntax

section \<open>The signaling server of \<^verbatim>\<open>src/server/main.py\<close>\<close>

text \<open>
  The server keeps a process-wide dictionary \<^verbatim>\<open>rooms\<close> from room identifiers to
  \<^verbatim>\<open>Room\<close> objects. A websocket handler keeps the \<^verbatim>\<open>Room\<close> object it looked up
  at connection time in a local variable, so a room can be reached from a handler after it
  has left the dictionary. The embedding therefore has an explicit store: the dictionary
  maps an identifier to a reference, and the objects live in \<open>heap\<close>.

  Conventions of the embedding.
  \<^item> Python integers are \<^typ>\<open>int\<close>; \<^verbatim>\<open>^\<close> is \<open>XOR\<close> on \<^typ>\<open>int\<close>.
  \<^item> A \<^verbatim>\<open>datetime\<close> is its number of microseconds, an \<^typ>\<open>int\<close>; every call of
    \<^verbatim>\<open>datetime.now()\<close> is a parameter of the function that makes it.
  \<^item> A websocket object is its identity, a \<^typ>\<open>nat\<close>; \<^verbatim>\<open>==\<close> on websockets is identity
    (Starlette resets \<^verbatim>\<open>__eq__\<close> to \<^verbatim>\<open>object.__eq__\<close>), and a websocket object is truthy.
  \<^item> Strings are lists of 8-bit characters, and \<^verbatim>\<open>str.upper\<close> is modelled on ASCII.
  \<^item> \<^verbatim>\<open>accept\<close>, \<^verbatim>\<open>close\<close> and \<^verbatim>\<open>send_json\<close> are recorded, in order, in \<open>trace\<close>:
    an entry is the call the server makes on the transport, whether or not the transport
    then delivers it.
  \<^item> The coroutine \<^verbatim>\<open>websocket_endpoint\<close> is cut at its suspension points that wait for
    the client: \<open>websocket_connect\<close> runs from the entry to the first
    \<^verbatim>\<open>receive_json\<close>, \<open>websocket_receive\<close> is one turn of the relay loop and
    \<open>websocket_disconnect\<close> is the handler of \<^verbatim>\<open>WebSocketDisconnect\<close>.
\<close>

subsection \<open>Strings and JSON values\<close>

definition upper_char :: "char \<Rightarrow> char" where
  "upper_char c =
     (case map_of (zip ''abcdefghijklmnopqrstuvwxyz'' ''ABCDEFGHIJKLMNOPQRSTUVWXYZ'') c of
        None \<Rightarrow> c
      | Some u \<Rightarrow> u)"

definition upper :: "string \<Rightarrow> string" where
  "upper s = map upper_char s"

datatype json =
    JNull
  | JBool bool
  | JInt int
  | JStr string
  | JArr "json list"
  | JObj "(string \<times> json) list"

text \<open>\<^verbatim>\<open>int | None\<close> as a JSON value.\<close>

definition json_of_seed :: "int option \<Rightarrow> json" where
  "json_of_seed s = (case s of None \<Rightarrow> JNull | Some v \<Rightarrow> JInt v)"

subsection \<open>Rooms\<close>

type_synonym WebSocket = nat

record Room =
  room_id :: string
  host_seed :: int
  max_superpositions :: int
  guest_seed :: "int option"
  host_ws :: "WebSocket option"
  guest_ws :: "WebSocket option"
  created_at :: int

text \<open>\<^verbatim>\<open>Room.__init__\<close>; \<open>now\<close> is the value of its \<^verbatim>\<open>datetime.now()\<close>.\<close>

definition Room_init :: "string \<Rightarrow> int \<Rightarrow> int \<Rightarrow> int \<Rightarrow> Room" where
  "Room_init rid hseed max_sup now =
     \<lparr>room_id = rid, host_seed = hseed, max_superpositions = max_sup, guest_seed = None,
      host_ws = None, guest_ws = None, created_at = now\<rparr>"

definition is_full :: "Room \<Rightarrow> bool" where
  "is_full room \<longleftrightarrow> host_ws room \<noteq> None \<and> guest_ws room \<noteq> None"

definition game_seed :: "Room \<Rightarrow> int option" where
  "game_seed room =
     (case guest_seed room of None \<Rightarrow> None | Some g \<Rightarrow> Some (host_seed room XOR g))"

definition get_other_ws :: "Room \<Rightarrow> WebSocket \<Rightarrow> WebSocket option" where
  "get_other_ws room ws =
     (if Some ws = host_ws room then guest_ws room
      else if Some ws = guest_ws room then host_ws room
      else None)"

subsection \<open>The server state\<close>

datatype action =
    Accept WebSocket
  | Close WebSocket int string
  | SendJson WebSocket json

record server =
  rooms :: "string \<rightharpoonup> nat"
  heap :: "nat \<Rightarrow> Room"
  next_ref :: nat
  trace :: "action list"

definition send_json :: "WebSocket \<Rightarrow> json \<Rightarrow> server \<Rightarrow> server" where
  "send_json ws data st = st\<lparr>trace := trace st @ [SendJson ws data]\<rparr>"

definition set_room :: "nat \<Rightarrow> Room \<Rightarrow> server \<Rightarrow> server" where
  "set_room ref room st = st\<lparr>heap := (heap st)(ref := room)\<rparr>"

subsection \<open>Room identifiers and expiry\<close>

text \<open>
  \<^verbatim>\<open>generate_room_id\<close>: the argument is the string that \<^verbatim>\<open>secrets.token_urlsafe(6)\<close>
  returned.
\<close>

definition generate_room_id :: "string \<Rightarrow> string" where
  "generate_room_id token = upper (take 8 token)"

definition hour :: int where
  "hour = 3600 * 1000000"

definition cleanup_old_rooms :: "int \<Rightarrow> server \<Rightarrow> server" where
  "cleanup_old_rooms now st =
     (let cutoff = now - hour in
      st\<lparr>rooms := (\<lambda>rid. case rooms st rid of
                             None \<Rightarrow> None
                           | Some ref \<Rightarrow> if created_at (heap st ref) < cutoff then None
                                         else Some ref)\<rparr>)"

subsection \<open>The pairing API\<close>

record CreateRoomRequest =
  seed :: int
  maxSuperpositions :: int

record CreateRoomResponse =
  created_room_id :: string
  created_player_color :: string
  created_max_superpositions :: int

record JoinRoomRequest =
  join_room_id :: string
  join_seed :: int

record JoinRoomResponse =
  joined_room_id :: string
  joined_player_color :: string
  joined_game_seed :: int
  joined_max_superpositions :: int

datatype exn =
    HTTPException int string
  | KeyError string

text \<open>
  The loop \<^verbatim>\<open>while room_id in rooms: room_id = generate_room_id()\<close> of
  \<^verbatim>\<open>create_room\<close>. \<open>tokens n\<close> is the result of the \<open>n\<close>-th call of
  \<^verbatim>\<open>secrets.token_urlsafe(6)\<close>; the loop has no bound, so not returning is \<open>None\<close>.
\<close>

partial_function (option) fresh_room_id ::
  "(nat \<Rightarrow> string) \<Rightarrow> (string \<rightharpoonup> nat) \<Rightarrow> nat \<Rightarrow> string option" where
  "fresh_room_id tokens rs n =
     (let rid = generate_room_id (tokens n) in
      if rs rid \<noteq> None then fresh_room_id tokens rs (Suc n) else Some rid)"

text \<open>
  \<^verbatim>\<open>create_room\<close>: \<open>now_cleanup\<close> is the clock read by \<^verbatim>\<open>cleanup_old_rooms\<close>,
  \<open>now_init\<close> the one read by \<^verbatim>\<open>Room.__init__\<close>.
\<close>

definition create_room ::
  "(nat \<Rightarrow> string) \<Rightarrow> int \<Rightarrow> int \<Rightarrow> CreateRoomRequest \<Rightarrow> server
     \<Rightarrow> (CreateRoomResponse \<times> server) option" where
  "create_room tokens now_cleanup now_init request st =
     (let st1 = cleanup_old_rooms now_cleanup st in
      case fresh_room_id tokens (rooms st1) 0 of
        None \<Rightarrow> None
      | Some rid \<Rightarrow>
          let max_sup = max 1 (min 5 (maxSuperpositions request));
              ref = next_ref st1;
              st2 = st1\<lparr>heap := (heap st1)(ref := Room_init rid (seed request) max_sup now_init),
                        rooms := (rooms st1)(rid \<mapsto> ref),
                        next_ref := Suc ref\<rparr>
          in Some (\<lparr>created_room_id = rid, created_player_color = ''white'',
                     created_max_superpositions = max_sup\<rparr>, st2))"

text \<open>\<^verbatim>\<open>room.game_seed or 0\<close>\<close>

definition or_zero :: "int option \<Rightarrow> int" where
  "or_zero v = (case v of None \<Rightarrow> 0 | Some x \<Rightarrow> if x = 0 then 0 else x)"

definition join_room :: "JoinRoomRequest \<Rightarrow> server \<Rightarrow> exn + (JoinRoomResponse \<times> server)" where
  "join_room request st =
     (case rooms st (upper (join_room_id request)) of
        None \<Rightarrow> Inl (HTTPException 404 ''Room not found'')
      | Some ref \<Rightarrow>
          if is_full (heap st ref) then Inl (HTTPException 400 ''Room is full'')
          else
            let room = (heap st ref)\<lparr>guest_seed := Some (join_seed request)\<rparr> in
            Inr (\<lparr>joined_room_id = room_id room, joined_player_color = ''black'',
                  joined_game_seed = or_zero (game_seed room),
                  joined_max_superpositions = max_superpositions room\<rparr>,
                 set_room ref room st))"

subsection \<open>The websocket endpoint\<close>

text \<open>
  What a running handler holds in its local variables \<^verbatim>\<open>websocket\<close>, \<^verbatim>\<open>room\<close>
  (a reference), \<^verbatim>\<open>room_id\<close> (already upper-cased) and \<^verbatim>\<open>role\<close>.
\<close>

record handler =
  websocket :: WebSocket
  room :: nat
  room_key :: string
  role :: string

text \<open>
  From the entry of \<^verbatim>\<open>websocket_endpoint\<close> to the first \<^verbatim>\<open>receive_json\<close>. The
  result is \<open>None\<close> when the function returned (the connection was closed), and the handler
  that enters the relay loop otherwise.
\<close>

definition websocket_connect :: "WebSocket \<Rightarrow> string \<Rightarrow> server \<Rightarrow> handler option \<times> server" where
  "websocket_connect ws rid0 st =
     (let rid = upper rid0 in
      case rooms st rid of
        None \<Rightarrow> (None, st\<lparr>trace := trace st @ [Close ws 4004 ''Room not found'']\<rparr>)
      | Some ref \<Rightarrow>
          let st1 = st\<lparr>trace := trace st @ [Accept ws]\<rparr> in
          if host_ws (heap st1 ref) = None then
            let st2 = set_room ref ((heap st1 ref)\<lparr>host_ws := Some ws\<rparr>) st1;
                st3 = send_json ws (JObj [(''type'', JStr ''connected''), (''role'', JStr ''host''),
                         (''game_seed'', json_of_seed (game_seed (heap st2 ref)))]) st2
            in (Some \<lparr>websocket = ws, room = ref, room_key = rid, role = ''host''\<rparr>, st3)
          else if guest_ws (heap st1 ref) = None then
            let st2 = set_room ref ((heap st1 ref)\<lparr>guest_ws := Some ws\<rparr>) st1;
                st3 = (case host_ws (heap st2 ref) of
                         None \<Rightarrow> st2
                       | Some h \<Rightarrow> send_json h (JObj [(''type'', JStr ''peer_joined''),
                                     (''game_seed'', json_of_seed (game_seed (heap st2 ref)))]) st2);
                st4 = send_json ws (JObj [(''type'', JStr ''connected''), (''role'', JStr ''guest''),
                         (''game_seed'', json_of_seed (game_seed (heap st3 ref)))]) st3
            in (Some \<lparr>websocket = ws, room = ref, room_key = rid, role = ''guest''\<rparr>, st4)
          else (None, st1\<lparr>trace := trace st1 @ [Close ws 4001 ''Room is full'']\<rparr>))"

text \<open>One turn of the relay loop: \<open>data\<close> is what \<^verbatim>\<open>receive_json\<close> returned.\<close>

definition websocket_receive :: "handler \<Rightarrow> json \<Rightarrow> server \<Rightarrow> server" where
  "websocket_receive h data st =
     (case get_other_ws (heap st (room h)) (websocket h) of
        None \<Rightarrow> st
      | Some other_ws \<Rightarrow> send_json other_ws data st)"

text \<open>
  The handler of \<^verbatim>\<open>WebSocketDisconnect\<close>. The \<^verbatim>\<open>try ... except: pass\<close> around the
  notification makes its outcome the same whether or not the transport delivers.
  \<^verbatim>\<open>del rooms[room_id]\<close> raises \<^verbatim>\<open>KeyError\<close> on a missing key; the state at the
  raise is returned with the exception.
\<close>

definition websocket_disconnect :: "handler \<Rightarrow> server \<Rightarrow> (exn \<times> server) + server" where
  "websocket_disconnect h st =
     (let ref = room h; ws = websocket h;
          st1 = (if host_ws (heap st ref) = Some ws
                 then set_room ref ((heap st ref)\<lparr>host_ws := None\<rparr>) st
                 else if guest_ws (heap st ref) = Some ws
                 then set_room ref ((heap st ref)\<lparr>guest_ws := None\<rparr>) st
                 else st);
          st2 = (case get_other_ws (heap st1 ref) ws of
                   None \<Rightarrow> st1
                 | Some other_ws \<Rightarrow> send_json other_ws (JObj [(''type'', JStr ''peer_disconnected'')]) st1)
      in if host_ws (heap st2 ref) = None \<and> guest_ws (heap st2 ref) = None
         then (if rooms st2 (room_key h) = None then Inl (KeyError (room_key h), st2)
               else Inr (st2\<lparr>rooms := (rooms st2)(room_key h := None)\<rparr>))
         else Inr st2)"

subsection \<open>Runs of the server\<close>



definition bound_in :: "server \<Rightarrow> nat \<Rightarrow> WebSocket \<Rightarrow> bool" where
  "bound_in st ref ws \<longleftrightarrow> host_ws (heap st ref) = Some ws \<or> guest_ws (heap st ref) = Some ws"


subsection \<open>An example run\<close>

text \<open>
  The states of one run of the server, written out. The lemmas \<open>run_*\<close> below show that
  the operations lead from each state to the next:
  an empty server; a room created at time 0 with seed 42; a guest joined with seed 17; the
  host connected as websocket 1; the guest connected as websocket 2; the guest gone (or the
  host gone first); the host gone too. Two side branches: both websockets connected with no join request, and a
  second room created one microsecond after the first room passed its hour, while the host
  of the first room is still connected.
\<close>

definition tokens_a :: "nat \<Rightarrow> string" where
  "tokens_a n = ''q3Zx_-Ab''"

definition tokens_b :: "nat \<Rightarrow> string" where
  "tokens_b n = ''Hy7_kLm2''"

definition room_a :: Room where
  "room_a = \<lparr>room_id = ''Q3ZX_-AB'', host_seed = 42, max_superpositions = 2, guest_seed = None,
      host_ws = None, guest_ws = None, created_at = 0\<rparr>"

definition room_b :: Room where
  "room_b = \<lparr>room_id = ''HY7_KLM2'', host_seed = 7, max_superpositions = 5, guest_seed = None,
      host_ws = None, guest_ws = None, created_at = 2 * hour + 1\<rparr>"

definition srv_empty :: server where
  "srv_empty = \<lparr>rooms = Map.empty, heap = (\<lambda>_. Room_init [] 0 0 0), next_ref = 0, trace = []\<rparr>"

definition srv_created :: server where
  "srv_created = \<lparr>rooms = [''Q3ZX_-AB'' \<mapsto> 0], heap = (heap srv_empty)(0 := room_a),
      next_ref = 1, trace = []\<rparr>"

definition srv_joined :: server where
  "srv_joined = srv_created\<lparr>heap := (heap srv_empty)(0 := room_a\<lparr>guest_seed := Some 17\<rparr>)\<rparr>"

definition host_handler :: handler where
  "host_handler = \<lparr>websocket = 1, room = 0, room_key = ''Q3ZX_-AB'', role = ''host''\<rparr>"

definition guest_handler :: handler where
  "guest_handler = \<lparr>websocket = 2, room = 0, room_key = ''Q3ZX_-AB'', role = ''guest''\<rparr>"

definition srv_host :: server where
  "srv_host = srv_joined
     \<lparr>heap := (heap srv_empty)(0 := room_a\<lparr>guest_seed := Some 17, host_ws := Some 1\<rparr>),
      trace := [Accept 1,
                SendJson 1 (JObj [(''type'', JStr ''connected''), (''role'', JStr ''host''),
                   (''game_seed'', JInt 59)])]\<rparr>"

definition srv_paired :: server where
  "srv_paired = srv_host
     \<lparr>heap := (heap srv_empty)
         (0 := room_a\<lparr>guest_seed := Some 17, host_ws := Some 1, guest_ws := Some 2\<rparr>),
      trace := trace srv_host @
               [Accept 2,
                SendJson 1 (JObj [(''type'', JStr ''peer_joined''), (''game_seed'', JInt 59)]),
                SendJson 2 (JObj [(''type'', JStr ''connected''), (''role'', JStr ''guest''),
                   (''game_seed'', JInt 59)])]\<rparr>"

definition srv_guest_left :: server where
  "srv_guest_left = srv_paired
     \<lparr>heap := (heap srv_empty)(0 := room_a\<lparr>guest_seed := Some 17, host_ws := Some 1\<rparr>)\<rparr>"

definition srv_host_left :: server where
  "srv_host_left = srv_paired
     \<lparr>heap := (heap srv_empty)(0 := room_a\<lparr>guest_seed := Some 17, guest_ws := Some 2\<rparr>)\<rparr>"

definition srv_closed :: server where
  "srv_closed = srv_guest_left
     \<lparr>heap := (heap srv_empty)(0 := room_a\<lparr>guest_seed := Some 17\<rparr>), rooms := Map.empty\<rparr>"

definition srv_host_unjoined :: server where
  "srv_host_unjoined = srv_created
     \<lparr>heap := (heap srv_empty)(0 := room_a\<lparr>host_ws := Some 1\<rparr>),
      trace := [Accept 1,
                SendJson 1 (JObj [(''type'', JStr ''connected''), (''role'', JStr ''host''),
                   (''game_seed'', JNull)])]\<rparr>"

definition srv_paired_unjoined :: server where
  "srv_paired_unjoined = srv_host_unjoined
     \<lparr>heap := (heap srv_empty)(0 := room_a\<lparr>host_ws := Some 1, guest_ws := Some 2\<rparr>),
      trace := trace srv_host_unjoined @
               [Accept 2,
                SendJson 1 (JObj [(''type'', JStr ''peer_joined''), (''game_seed'', JNull)]),
                SendJson 2 (JObj [(''type'', JStr ''connected''), (''role'', JStr ''guest''),
                   (''game_seed'', JNull)])]\<rparr>"

definition srv_swept :: server where
  "srv_swept = srv_host
     \<lparr>rooms := [''HY7_KLM2'' \<mapsto> 1], heap := (heap srv_host)(1 := room_b), next_ref := 2\<rparr>"

section \<open>Properties\<close>

subsection \<open>Auxiliary facts\<close>

lemma upper_char_idem: "upper_char (upper_char c) = upper_char c"
  by (auto simp add: upper_char_def)

lemma upper_idem: "upper (upper s) = upper s"
  by (simp add: upper_def upper_char_idem)

lemma generate_room_id_upper: "upper (generate_room_id t) = generate_room_id t"
  by (simp add: generate_room_id_def upper_idem)

lemma generate_room_id_length: "length (generate_room_id t) \<le> 8"
  by (simp add: generate_room_id_def upper_def)

text \<open>What the collision loop returns is a generated identifier that is not in use.\<close>

lemma fresh_room_id_Some:
  assumes "fresh_room_id tokens rs n = Some rid"
  shows "rs rid = None \<and> (\<exists>k\<ge>n. rid = generate_room_id (tokens k))"
proof (rule fresh_room_id.raw_induct
    [where P = "\<lambda>tokens rs n rid. rs rid = None \<and> (\<exists>k\<ge>n. rid = generate_room_id (tokens k))",
      OF _ assms])
  fix f :: "(nat \<Rightarrow> string) \<Rightarrow> (string \<rightharpoonup> nat) \<Rightarrow> nat \<Rightarrow> string option"
  fix tokens rs n rid
  assume IH: "\<And>tokens rs n rid. f tokens rs n = Some rid \<Longrightarrow>
                rs rid = None \<and> (\<exists>k\<ge>n. rid = generate_room_id (tokens k))"
    and step: "(let rid = generate_room_id (tokens n) in
                if rs rid \<noteq> None then f tokens rs (Suc n) else Some rid) = Some rid"
  show "rs rid = None \<and> (\<exists>k\<ge>n. rid = generate_room_id (tokens k))"
  proof (cases "rs (generate_room_id (tokens n)) = None")
    case True
    with step show ?thesis by (auto simp: Let_def)
  next
    case False
    with step have "f tokens rs (Suc n) = Some rid" by (simp add: Let_def)
    from IH[OF this] show ?thesis by (auto intro: Suc_leD)
  qed
qed

text \<open>The loop returns as soon as some later token gives an identifier that is not in use.\<close>

lemma fresh_room_id_returns:
  assumes "rs (generate_room_id (tokens (n + d))) = None"
  shows "\<exists>rid. fresh_room_id tokens rs n = Some rid"
  using assms
proof (induction d arbitrary: n)
  case 0
  then show ?case by (subst fresh_room_id.simps) (simp add: Let_def)
next
  case (Suc d)
  then have "\<exists>rid. fresh_room_id tokens rs (Suc n) = Some rid" by simp
  then show ?case by (subst fresh_room_id.simps) (simp add: Let_def)
qed

lemma create_room_Some:
  assumes "create_room tokens t1 t2 request st = Some (resp, st')"
  shows "rooms (cleanup_old_rooms t1 st) (created_room_id resp) = None"
    and "\<exists>k. created_room_id resp = generate_room_id (tokens k)"
    and "created_max_superpositions resp = max 1 (min 5 (maxSuperpositions request))"
    and "created_player_color resp = ''white''"
    and "st' = (cleanup_old_rooms t1 st)
           \<lparr>heap := (heap st)(next_ref st := Room_init (created_room_id resp) (seed request)
                (created_max_superpositions resp) t2),
            rooms := (rooms (cleanup_old_rooms t1 st))(created_room_id resp \<mapsto> next_ref st),
            next_ref := Suc (next_ref st)\<rparr>"
  using assms
  by (auto simp add: create_room_def Let_def cleanup_old_rooms_def split: option.splits
      dest!: fresh_room_id_Some)

lemma rooms_after_create:
  assumes "create_room tokens t1 t2 request st = Some (resp, st')"
  shows "rooms st' (created_room_id resp) = Some (next_ref st)"
    and "heap st' (next_ref st) = Room_init (created_room_id resp) (seed request)
           (max 1 (min 5 (maxSuperpositions request))) t2"
    and "upper (created_room_id resp) = created_room_id resp"
    and "length (created_room_id resp) \<le> 8"
proof -
  from create_room_Some(2)[OF assms]
  obtain k where k: "created_room_id resp = generate_room_id (tokens k)" ..
  show "upper (created_room_id resp) = created_room_id resp"
    by (simp add: k generate_room_id_upper)
  show "length (created_room_id resp) \<le> 8"
    by (simp add: k generate_room_id_length)
  show "rooms st' (created_room_id resp) = Some (next_ref st)"
    by (subst create_room_Some(5)[OF assms]) simp
  show "heap st' (next_ref st) = Room_init (created_room_id resp) (seed request)
           (max 1 (min 5 (maxSuperpositions request))) t2"
    by (subst create_room_Some(5)[OF assms]) (simp add: create_room_Some(3)[OF assms])
qed

text \<open>
  The disconnect handler, with the notification removed: after the handler has unbound
  its own slot, \<^verbatim>\<open>get_other_ws(websocket)\<close> compares the websocket with the two slots
  again, finds it in neither, and returns \<^verbatim>\<open>None\<close>.
\<close>

lemma websocket_disconnect_eq:
  "websocket_disconnect h st =
     (let r = heap st (room h);
          r' = (if host_ws r = Some (websocket h) then r\<lparr>host_ws := None\<rparr>
                else if guest_ws r = Some (websocket h) then r\<lparr>guest_ws := None\<rparr> else r);
          st' = st\<lparr>heap := (heap st)(room h := r')\<rparr>
      in if host_ws r' = None \<and> guest_ws r' = None
         then (if rooms st (room_key h) = None then Inl (KeyError (room_key h), st')
               else Inr (st'\<lparr>rooms := (rooms st)(room_key h := None)\<rparr>))
         else Inr st')"
  apply (simp add: websocket_disconnect_def Let_def set_room_def get_other_ws_def send_json_def)
  apply (auto simp: fun_upd_idem)
  done

lemma websocket_disconnect_never_sends:
  "trace (case websocket_disconnect h st of Inl (e, st') \<Rightarrow> st' | Inr st' \<Rightarrow> st') = trace st"
  by (simp add: websocket_disconnect_eq Let_def)

text \<open>\<open>create_room\<close> returns as soon as one of the tokens gives an identifier not in use.\<close>

lemma create_room_returns:
  assumes "rooms (cleanup_old_rooms t1 st) (generate_room_id (tokens d)) = None"
  shows "\<exists>resp st'. create_room tokens t1 t2 request st = Some (resp, st')"
  using assms fresh_room_id_returns[of "rooms (cleanup_old_rooms t1 st)" tokens 0 d]
  by (auto simp add: create_room_def Let_def)

text \<open>
  The handler that enters the relay loop is bound in the room that the registry holds under
  the handler's identifier.
\<close>

lemma websocket_connect_handler:
  assumes "websocket_connect ws q st = (Some h, st')"
  shows "rooms st' (room_key h) = Some (room h) \<and> websocket h = ws \<and> bound_in st' (room h) ws"
proof (cases "rooms st (upper q)")
  case None
  with assms show ?thesis by (simp add: websocket_connect_def)
next
  case (Some ref)
  show ?thesis
  proof (cases "host_ws (heap st ref) = None")
    case True
    with assms Some show ?thesis
      by (auto simp add: websocket_connect_def Let_def set_room_def send_json_def bound_in_def)
  next
    case False
    note hb = this
    show ?thesis
    proof (cases "guest_ws (heap st ref) = None")
      case True
      with assms Some hb show ?thesis
        by (auto simp add: websocket_connect_def Let_def set_room_def send_json_def bound_in_def
            split: option.splits)
    next
      case False
      with assms Some hb show ?thesis
        by (auto simp add: websocket_connect_def Let_def)
    qed
  qed
qed

subsection \<open>The example run\<close>

lemmas eval_defs = Let_def create_room_def cleanup_old_rooms_def fresh_room_id.simps
  generate_room_id_def upper_def upper_char_def Room_init_def join_room_def is_full_def
  game_seed_def or_zero_def set_room_def websocket_connect_def websocket_receive_def
  websocket_disconnect_def get_other_ws_def send_json_def json_of_seed_def hour_def

lemmas run_defs = tokens_a_def tokens_b_def room_a_def room_b_def srv_empty_def srv_created_def
  srv_joined_def host_handler_def guest_handler_def srv_host_def srv_paired_def
  srv_guest_left_def srv_host_left_def srv_closed_def srv_host_unjoined_def srv_paired_unjoined_def srv_swept_def

lemma run_create:
  "create_room tokens_a 0 0 \<lparr>seed = 42, maxSuperpositions = 2\<rparr> srv_empty
     = Some (\<lparr>created_room_id = ''Q3ZX_-AB'', created_player_color = ''white'',
              created_max_superpositions = 2\<rparr>, srv_created)"
  by (simp add: eval_defs run_defs fun_eq_iff)

lemma run_join:
  "join_room \<lparr>join_room_id = ''Q3ZX_-AB'', join_seed = 17\<rparr> srv_created
     = Inr (\<lparr>joined_room_id = ''Q3ZX_-AB'', joined_player_color = ''black'',
             joined_game_seed = 59, joined_max_superpositions = 2\<rparr>, srv_joined)"
  by (simp add: eval_defs run_defs)

lemma run_join_again:
  "join_room \<lparr>join_room_id = ''Q3ZX_-AB'', join_seed = 99\<rparr> srv_joined
     = Inr (\<lparr>joined_room_id = ''Q3ZX_-AB'', joined_player_color = ''black'',
             joined_game_seed = 73, joined_max_superpositions = 2\<rparr>,
            srv_joined\<lparr>heap := (heap srv_empty)(0 := room_a\<lparr>guest_seed := Some 99\<rparr>)\<rparr>)"
  by (simp add: eval_defs run_defs)

lemma run_connect_host:
  "websocket_connect 1 ''q3zx_-ab'' srv_joined = (Some host_handler, srv_host)"
  by (simp add: eval_defs run_defs)

lemma run_connect_guest:
  "websocket_connect 2 ''q3zx_-ab'' srv_host = (Some guest_handler, srv_paired)"
  by (simp add: eval_defs run_defs)

lemma run_connect_third:
  "websocket_connect 3 ''q3zx_-ab'' srv_paired
     = (None, srv_paired\<lparr>trace := trace srv_paired @ [Accept 3, Close 3 4001 ''Room is full'']\<rparr>)"
  by (simp add: eval_defs run_defs)

lemma run_guest_leaves:
  "websocket_disconnect guest_handler srv_paired = Inr srv_guest_left"
  by (simp add: eval_defs run_defs)

lemma run_host_leaves_first:
  "websocket_disconnect host_handler srv_paired = Inr srv_host_left"
  by (simp add: eval_defs run_defs)


lemma run_connect_host_unjoined:
  "websocket_connect 1 ''Q3ZX_-AB'' srv_created = (Some host_handler, srv_host_unjoined)"
  by (simp add: eval_defs run_defs)

lemma run_connect_guest_unjoined:
  "websocket_connect 2 ''Q3ZX_-AB'' srv_host_unjoined = (Some guest_handler, srv_paired_unjoined)"
  by (simp add: eval_defs run_defs)

lemma run_sweep:
  "create_room tokens_b (2 * hour + 1) (2 * hour + 1) \<lparr>seed = 7, maxSuperpositions = 9\<rparr> srv_host
     = Some (\<lparr>created_room_id = ''HY7_KLM2'', created_player_color = ''white'',
              created_max_superpositions = 5\<rparr>, srv_swept)"
  by (simp add: eval_defs run_defs fun_eq_iff)

subsection \<open>A websocket is bound to at most one slot\<close>
















subsection \<open>The combined seed\<close>

text \<open>
  C9. The combined seed of a room is the bitwise XOR of its host seed and its guest seed;
  it is defined exactly when the guest seed is set; and it does not depend on which of two
  seeds is the host's.
\<close>

theorem game_seed_xor_commutative:
  "game_seed (r\<lparr>host_seed := a, guest_seed := Some b\<rparr>) = Some (a XOR b)
   \<and> (game_seed r = None) = (guest_seed r = None)
   \<and> game_seed (r\<lparr>host_seed := a, guest_seed := Some b\<rparr>)
       = game_seed (r\<lparr>host_seed := b, guest_seed := Some a\<rparr>)"
  by (simp add: game_seed_def xor.commute split: option.split)

subsection \<open>Room identifiers\<close>



subsection \<open>Joining a room\<close>

text \<open>
  C1, as the code has it. \<open>join_room\<close> fails with "Room is full" exactly when the room
  exists and both of its connection slots are bound; a recorded guest seed does not make it
  fail. After \<open>create_room\<close>, a \<open>join_room\<close> with the returned identifier succeeds: it
  records the guest seed and returns the combined seed and the branch limit.
\<close>

theorem join_room_full_iff_both_bound:
  "(join_room request st = Inl (HTTPException 400 ''Room is full''))
     = (\<exists>ref. rooms st (upper (join_room_id request)) = Some ref
             \<and> host_ws (heap st ref) \<noteq> None \<and> guest_ws (heap st ref) \<noteq> None)
   \<and> (create_room tokens t1 t2 creq st0 = Some (resp, st1) \<longrightarrow>
        (\<exists>st2. join_room \<lparr>join_room_id = created_room_id resp, join_seed = g\<rparr> st1
           = Inr (\<lparr>joined_room_id = created_room_id resp, joined_player_color = ''black'',
                   joined_game_seed = seed creq XOR g,
                   joined_max_superpositions = created_max_superpositions resp\<rparr>, st2)
         \<and> guest_seed (heap st2 (next_ref st0)) = Some g \<and> rooms st2 = rooms st1))"
proof (intro conjI impI)
  show "(join_room request st = Inl (HTTPException 400 ''Room is full''))
     = (\<exists>ref. rooms st (upper (join_room_id request)) = Some ref
             \<and> host_ws (heap st ref) \<noteq> None \<and> guest_ws (heap st ref) \<noteq> None)"
    by (simp add: join_room_def is_full_def Let_def split: option.split)
next
  assume c: "create_room tokens t1 t2 creq st0 = Some (resp, st1)"
  show "\<exists>st2. join_room \<lparr>join_room_id = created_room_id resp, join_seed = g\<rparr> st1
           = Inr (\<lparr>joined_room_id = created_room_id resp, joined_player_color = ''black'',
                   joined_game_seed = seed creq XOR g,
                   joined_max_superpositions = created_max_superpositions resp\<rparr>, st2)
         \<and> guest_seed (heap st2 (next_ref st0)) = Some g \<and> rooms st2 = rooms st1"
    using rooms_after_create[OF c] create_room_Some(3)[OF c]
    by (simp add: join_room_def Room_init_def is_full_def Let_def game_seed_def or_zero_def
        set_room_def)
qed

theorem join_room_full_iff_both_bound_witness:
  "create_room tokens_a 0 0 \<lparr>seed = 42, maxSuperpositions = 2\<rparr> srv_empty
     = Some (\<lparr>created_room_id = ''Q3ZX_-AB'', created_player_color = ''white'',
              created_max_superpositions = 2\<rparr>, srv_created)
   \<and> (\<exists>st2. join_room \<lparr>join_room_id = ''Q3ZX_-AB'', join_seed = 17\<rparr> srv_created
         = Inr (\<lparr>joined_room_id = ''Q3ZX_-AB'', joined_player_color = ''black'',
                 joined_game_seed = 59, joined_max_superpositions = 2\<rparr>, st2)
        \<and> guest_seed (heap st2 0) = Some 17 \<and> rooms st2 = rooms srv_created)
   \<and> join_room \<lparr>join_room_id = ''q3zx_-ab'', join_seed = 5\<rparr> srv_paired
       = Inl (HTTPException 400 ''Room is full'')"
  using join_room_full_iff_both_bound[of "\<lparr>join_room_id = ''q3zx_-ab'', join_seed = 5\<rparr>"
      srv_paired tokens_a 0 0 "\<lparr>seed = 42, maxSuperpositions = 2\<rparr>" srv_empty
      "\<lparr>created_room_id = ''Q3ZX_-AB'', created_player_color = ''white'',
        created_max_superpositions = 2\<rparr>" srv_created 17]
    run_create
  by (simp add: run_defs upper_def upper_char_def)

text \<open>
  The claim as stated fails: a second \<open>join_room\<close> on a room whose guest seed is recorded
  succeeds, and replaces the guest seed.
\<close>

theorem second_join_room_succeeds:
  "create_room tokens_a 0 0 \<lparr>seed = 42, maxSuperpositions = 2\<rparr> srv_empty
     = Some (\<lparr>created_room_id = ''Q3ZX_-AB'', created_player_color = ''white'',
              created_max_superpositions = 2\<rparr>, srv_created)
   \<and> join_room \<lparr>join_room_id = ''Q3ZX_-AB'', join_seed = 17\<rparr> srv_created
     = Inr (\<lparr>joined_room_id = ''Q3ZX_-AB'', joined_player_color = ''black'',
             joined_game_seed = 59, joined_max_superpositions = 2\<rparr>, srv_joined)
   \<and> guest_seed (heap srv_joined 0) = Some 17
   \<and> join_room \<lparr>join_room_id = ''Q3ZX_-AB'', join_seed = 99\<rparr> srv_joined
     = Inr (\<lparr>joined_room_id = ''Q3ZX_-AB'', joined_player_color = ''black'',
             joined_game_seed = 73, joined_max_superpositions = 2\<rparr>,
            srv_joined\<lparr>heap := (heap srv_empty)(0 := room_a\<lparr>guest_seed := Some 99\<rparr>)\<rparr>)
   \<and> join_room \<lparr>join_room_id = ''Q3ZX_-AB'', join_seed = 99\<rparr> srv_joined
     \<noteq> Inl (HTTPException 400 ''Room is full'')"
  using run_create run_join run_join_again
  by (simp add: srv_joined_def srv_created_def)

subsection \<open>Expiry\<close>

text \<open>
  C3, as the code has it. Only \<open>create_room\<close> sweeps the registry. After a \<open>create_room\<close>
  whose sweep read the clock at \<open>now\<close>, a room that was created more than one hour before
  \<open>now\<close> is gone from the registry, whatever its slots hold: \<open>join_room\<close> answers
  "Room not found" and a new websocket is closed with 4004, unless the identifier is the one
  just given to the new room.
\<close>

theorem create_room_sweeps_expired:
  assumes "create_room tokens now t2 creq st = Some (resp, st')"
    and "rooms st rid = Some ref" and "created_at (heap st ref) < now - hour"
    and "rid \<noteq> created_room_id resp" and "upper q = rid"
  shows "join_room \<lparr>join_room_id = q, join_seed = g\<rparr> st' = Inl (HTTPException 404 ''Room not found'')
       \<and> websocket_connect ws q st'
           = (None, st'\<lparr>trace := trace st' @ [Close ws 4004 ''Room not found'']\<rparr>)"
proof -
  have "rooms st' rid = None"
    using assms(2-4) by (subst create_room_Some(5)[OF assms(1)]) (simp add: cleanup_old_rooms_def)
  then show ?thesis
    using assms(5) by (simp add: join_room_def websocket_connect_def)
qed

theorem create_room_sweeps_expired_witness:
  "create_room tokens_b (2 * hour + 1) (2 * hour + 1) \<lparr>seed = 7, maxSuperpositions = 9\<rparr> srv_host
     = Some (\<lparr>created_room_id = ''HY7_KLM2'', created_player_color = ''white'',
              created_max_superpositions = 5\<rparr>, srv_swept)
   \<and> rooms srv_host ''Q3ZX_-AB'' = Some 0
   \<and> created_at (heap srv_host 0) < (2 * hour + 1) - hour
   \<and> host_ws (heap srv_host 0) = Some 1
   \<and> upper ''q3zx_-ab'' = ''Q3ZX_-AB''
   \<and> join_room \<lparr>join_room_id = ''q3zx_-ab'', join_seed = 5\<rparr> srv_swept
       = Inl (HTTPException 404 ''Room not found'')
   \<and> websocket_connect 7 ''q3zx_-ab'' srv_swept
       = (None, srv_swept\<lparr>trace := trace srv_swept @ [Close 7 4004 ''Room not found'']\<rparr>)"
proof -
  have r: "rooms srv_host ''Q3ZX_-AB'' = Some 0"
    by (simp add: run_defs)
  have old: "created_at (heap srv_host 0) < (2 * hour + 1) - hour"
    by (simp add: run_defs hour_def)
  have hb: "host_ws (heap srv_host 0) = Some 1"
    by (simp add: run_defs)
  have ne: "''Q3ZX_-AB'' \<noteq> created_room_id \<lparr>created_room_id = ''HY7_KLM2'',
      created_player_color = ''white'', created_max_superpositions = 5\<rparr>"
    by simp
  have u: "upper ''q3zx_-ab'' = ''Q3ZX_-AB''"
    by (simp add: upper_def upper_char_def)
  from create_room_sweeps_expired[OF run_sweep r old ne u, of 5 7] run_sweep r old hb u
  show ?thesis by simp
qed

text \<open>
  The claim as stated fails: with no \<open>create_room\<close> in between, the room created at time 0
  is found by \<open>join_room\<close> and by a new websocket at any later time, here one microsecond
  after its hour has passed.
\<close>

theorem expired_room_still_found:
  "create_room tokens_a 0 0 \<lparr>seed = 42, maxSuperpositions = 2\<rparr> srv_empty
     = Some (\<lparr>created_room_id = ''Q3ZX_-AB'', created_player_color = ''white'',
              created_max_superpositions = 2\<rparr>, srv_created)
   \<and> created_at (heap srv_created 0) < (2 * hour + 1) - hour
   \<and> join_room \<lparr>join_room_id = ''Q3ZX_-AB'', join_seed = 17\<rparr> srv_created
     = Inr (\<lparr>joined_room_id = ''Q3ZX_-AB'', joined_player_color = ''black'',
             joined_game_seed = 59, joined_max_superpositions = 2\<rparr>, srv_joined)
   \<and> websocket_connect 1 ''Q3ZX_-AB'' srv_created = (Some host_handler, srv_host_unjoined)"
  using run_create run_join run_connect_host_unjoined
  by (simp add: run_defs hour_def)

subsection \<open>Admission of a websocket\<close>

text \<open>
  C6. A new websocket addressed to a room is admitted by the first free slot. If the
  identifier is not in the registry, the websocket is closed with code 4004 and never
  accepted. Otherwise it is accepted and bound as host if the host slot is unbound, else as
  guest if the guest slot is unbound, else closed with code 4001. On a room with both slots
  unbound, three websockets in a row become host, guest, and rejected with 4001.
\<close>

theorem websocket_connect_admission:
  "(rooms st (upper q) = None \<longrightarrow>
      websocket_connect ws q st
        = (None, st\<lparr>trace := trace st @ [Close ws 4004 ''Room not found'']\<rparr>))
   \<and> (rooms st (upper q) = Some ref \<and> host_ws (heap st ref) = None \<longrightarrow>
        (\<exists>st'. websocket_connect ws q st
                 = (Some \<lparr>websocket = ws, room = ref, room_key = upper q, role = ''host''\<rparr>, st')
             \<and> heap st' = (heap st)(ref := (heap st ref)\<lparr>host_ws := Some ws\<rparr>)
             \<and> rooms st' = rooms st))
   \<and> (rooms st (upper q) = Some ref \<and> host_ws (heap st ref) \<noteq> None
        \<and> guest_ws (heap st ref) = None \<longrightarrow>
        (\<exists>st'. websocket_connect ws q st
                 = (Some \<lparr>websocket = ws, room = ref, room_key = upper q, role = ''guest''\<rparr>, st')
             \<and> heap st' = (heap st)(ref := (heap st ref)\<lparr>guest_ws := Some ws\<rparr>)
             \<and> rooms st' = rooms st))
   \<and> (rooms st (upper q) = Some ref \<and> host_ws (heap st ref) \<noteq> None
        \<and> guest_ws (heap st ref) \<noteq> None \<longrightarrow>
        websocket_connect ws q st
          = (None, st\<lparr>trace := trace st @ [Accept ws, Close ws 4001 ''Room is full'']\<rparr>))
   \<and> (rooms st (upper q) = Some ref \<and> host_ws (heap st ref) = None
        \<and> guest_ws (heap st ref) = None \<longrightarrow>
        (\<exists>st1 st2.
            websocket_connect w1 q st
              = (Some \<lparr>websocket = w1, room = ref, room_key = upper q, role = ''host''\<rparr>, st1)
          \<and> websocket_connect w2 q st1
              = (Some \<lparr>websocket = w2, room = ref, room_key = upper q, role = ''guest''\<rparr>, st2)
          \<and> host_ws (heap st2 ref) = Some w1 \<and> guest_ws (heap st2 ref) = Some w2
          \<and> websocket_connect w3 q st2
              = (None, st2\<lparr>trace := trace st2 @ [Accept w3, Close w3 4001 ''Room is full'']\<rparr>)))"
  by (auto simp add: websocket_connect_def Let_def set_room_def send_json_def)

theorem websocket_connect_admission_witness:
  "rooms srv_empty (upper ''q3zx_-ab'') = None
   \<and> websocket_connect 1 ''q3zx_-ab'' srv_empty
       = (None, srv_empty\<lparr>trace := trace srv_empty @ [Close 1 4004 ''Room not found'']\<rparr>)
   \<and> rooms srv_joined (upper ''q3zx_-ab'') = Some 0
   \<and> host_ws (heap srv_joined 0) = None \<and> guest_ws (heap srv_joined 0) = None
   \<and> websocket_connect 1 ''q3zx_-ab'' srv_joined = (Some host_handler, srv_host)
   \<and> host_ws (heap srv_host 0) \<noteq> None \<and> guest_ws (heap srv_host 0) = None
   \<and> websocket_connect 2 ''q3zx_-ab'' srv_host = (Some guest_handler, srv_paired)
   \<and> host_ws (heap srv_paired 0) = Some 1 \<and> guest_ws (heap srv_paired 0) = Some 2
   \<and> websocket_connect 3 ''q3zx_-ab'' srv_paired
       = (None, srv_paired\<lparr>trace := trace srv_paired @ [Accept 3, Close 3 4001 ''Room is full'']\<rparr>)"
  using websocket_connect_admission[of srv_empty "''q3zx_-ab''" 1 0 1 2 3]
    websocket_connect_admission[of srv_joined "''q3zx_-ab''" 1 0 1 2 3]
    websocket_connect_admission[of srv_host "''q3zx_-ab''" 2 0 1 2 3]
    websocket_connect_admission[of srv_paired "''q3zx_-ab''" 3 0 1 2 3]
    run_connect_host run_connect_guest run_connect_third
  by (simp add: run_defs upper_def upper_char_def)

subsection \<open>The notification to the host\<close>

text \<open>
  C5, as the code has it. When a websocket is bound to the guest slot of a room whose host
  slot is bound, the server sends \<open>peer_joined\<close> to the host's websocket at once, before
  the \<open>connected\<close> confirmation to the guest. The message carries the combined seed of the
  room as it is then: the XOR of the two seeds if a join request has recorded the guest
  seed, and null if none has.
\<close>

theorem guest_binding_pushes_peer_joined:
  assumes "rooms st (upper q) = Some ref" and "host_ws (heap st ref) = Some h"
    and "guest_ws (heap st ref) = None"
  shows "\<exists>st'. websocket_connect ws q st
            = (Some \<lparr>websocket = ws, room = ref, room_key = upper q, role = ''guest''\<rparr>, st')
     \<and> trace st' = trace st @
          [Accept ws,
           SendJson h (JObj [(''type'', JStr ''peer_joined''),
              (''game_seed'', json_of_seed (game_seed (heap st ref)))]),
           SendJson ws (JObj [(''type'', JStr ''connected''), (''role'', JStr ''guest''),
              (''game_seed'', json_of_seed (game_seed (heap st ref)))])]
     \<and> heap st' = (heap st)(ref := (heap st ref)\<lparr>guest_ws := Some ws\<rparr>)
     \<and> json_of_seed (game_seed (heap st ref))
          = (case guest_seed (heap st ref) of
               None \<Rightarrow> JNull
             | Some g \<Rightarrow> JInt (host_seed (heap st ref) XOR g))"
  using assms
  by (simp add: websocket_connect_def Let_def set_room_def send_json_def game_seed_def
      json_of_seed_def split: option.split)

theorem guest_binding_pushes_peer_joined_witness:
  "rooms srv_host (upper ''q3zx_-ab'') = Some 0 \<and> host_ws (heap srv_host 0) = Some 1
   \<and> guest_ws (heap srv_host 0) = None
   \<and> websocket_connect 2 ''q3zx_-ab'' srv_host = (Some guest_handler, srv_paired)
   \<and> trace srv_paired = trace srv_host @
        [Accept 2,
         SendJson 1 (JObj [(''type'', JStr ''peer_joined''), (''game_seed'', JInt 59)]),
         SendJson 2 (JObj [(''type'', JStr ''connected''), (''role'', JStr ''guest''),
            (''game_seed'', JInt 59)])]
   \<and> guest_ws (heap srv_paired 0) = Some 2"
proof -
  have r: "rooms srv_host (upper ''q3zx_-ab'') = Some 0"
    by (simp add: run_defs upper_def upper_char_def)
  have hb: "host_ws (heap srv_host 0) = Some 1"
    by (simp add: run_defs)
  have gn: "guest_ws (heap srv_host 0) = None"
    by (simp add: run_defs)
  from guest_binding_pushes_peer_joined[OF r hb gn, of 2] r hb gn run_connect_guest
  show ?thesis by (simp add: run_defs)
qed

text \<open>
  The claim as stated fails: a websocket is bound as guest with no join request before it,
  and \<open>peer_joined\<close> then carries null.
\<close>

theorem peer_joined_without_join:
  "create_room tokens_a 0 0 \<lparr>seed = 42, maxSuperpositions = 2\<rparr> srv_empty
     = Some (\<lparr>created_room_id = ''Q3ZX_-AB'', created_player_color = ''white'',
              created_max_superpositions = 2\<rparr>, srv_created)
   \<and> websocket_connect 1 ''Q3ZX_-AB'' srv_created = (Some host_handler, srv_host_unjoined)
   \<and> websocket_connect 2 ''Q3ZX_-AB'' srv_host_unjoined = (Some guest_handler, srv_paired_unjoined)
   \<and> trace srv_paired_unjoined
       = [Accept 1,
          SendJson 1 (JObj [(''type'', JStr ''connected''), (''role'', JStr ''host''),
             (''game_seed'', JNull)]),
          Accept 2,
          SendJson 1 (JObj [(''type'', JStr ''peer_joined''), (''game_seed'', JNull)]),
          SendJson 2 (JObj [(''type'', JStr ''connected''), (''role'', JStr ''guest''),
             (''game_seed'', JNull)])]
   \<and> guest_seed (heap srv_paired_unjoined 0) = None
   \<and> game_seed (heap srv_paired_unjoined 0) = None"
  using run_create run_connect_host_unjoined run_connect_guest_unjoined
  by (simp add: run_defs game_seed_def)

subsection \<open>The relay\<close>



subsection \<open>Disconnecting\<close>



text \<open>
  C2. The code does not do what the claim says. In the run below the guest's websocket
  disconnects while the host's is bound: the disconnect path ends normally, the host's slot
  is still bound, and no call was made on the transport, so the host gets no
  \<open>peer_disconnected\<close>. Lemma \<open>websocket_disconnect_never_sends\<close> shows that this is so
  in every state.
\<close>

theorem guest_disconnect_sends_nothing:
  "websocket_connect 1 ''q3zx_-ab'' srv_joined = (Some host_handler, srv_host)
   \<and> websocket_connect 2 ''q3zx_-ab'' srv_host = (Some guest_handler, srv_paired)
   \<and> host_ws (heap srv_paired 0) = Some 1 \<and> guest_ws (heap srv_paired 0) = Some 2
   \<and> websocket_disconnect guest_handler srv_paired = Inr srv_guest_left
   \<and> host_ws (heap srv_guest_left 0) = Some 1
   \<and> trace srv_guest_left = trace srv_paired
   \<and> SendJson 1 (JObj [(''type'', JStr ''peer_disconnected'')]) \<notin> set (trace srv_guest_left)"
  using run_connect_host run_connect_guest run_guest_leaves
  by (simp add: run_defs)

text \<open>
  C4. The code does not do what the claim says. In the run below the host of the first room
  is connected when a \<open>create_room\<close>, one microsecond after the room's hour has passed,
  sweeps the room out of the registry. When the host then disconnects, both slots are
  unbound and \<^verbatim>\<open>del rooms[room_id]\<close> raises \<^verbatim>\<open>KeyError\<close>.
\<close>

theorem disconnect_after_expiry_raises:
  "websocket_connect 1 ''q3zx_-ab'' srv_joined = (Some host_handler, srv_host)
   \<and> create_room tokens_b (2 * hour + 1) (2 * hour + 1) \<lparr>seed = 7, maxSuperpositions = 9\<rparr> srv_host
     = Some (\<lparr>created_room_id = ''HY7_KLM2'', created_player_color = ''white'',
              created_max_superpositions = 5\<rparr>, srv_swept)
   \<and> rooms srv_swept (room_key host_handler) = None
   \<and> websocket_disconnect host_handler srv_swept
       = Inl (KeyError ''Q3ZX_-AB'',
              srv_swept\<lparr>heap := (heap srv_swept)(0 := (heap srv_swept 0)\<lparr>host_ws := None\<rparr>)\<rparr>)"
  using run_connect_host run_sweep
  by (simp add: websocket_disconnect_eq Let_def run_defs)

end
